theory Spec2Isabelle
  imports Main
begin

section \<open>JavaScript values\<close>

text \<open>
  The component \<^verbatim>\<open>src/components/Video/Video.js\<close> is untyped JavaScript: it tests its
  inputs at run time (\<^verbatim>\<open>Util.isArray\<close>, \<^verbatim>\<open>|| {}\<close>, \<^verbatim>\<open>=== 'ogv'\<close>, a destructuring default).
  Values are therefore modelled as one datatype. An object is a plain object, given by
  the finite mapping of its own enumerable properties; its prototype is
  \<^verbatim>\<open>Object.prototype\<close>, in an environment that has added nothing to it. There are no
  functions and no symbols among the values. A number is given by the text ToString prints
  for it (\<^verbatim>\<open>50\<close>, \<^verbatim>\<open>0.5\<close>, \<^verbatim>\<open>1e+21\<close>, \<^verbatim>\<open>NaN\<close>): the component never computes with a
  number, it only prints one or tests it for falsiness. A string is a list of
  characters, one per code unit.
\<close>

datatype jsval =
    Undefined
  | Null
  | Bool bool
  | Num string
  | Str string
  | Arr "jsval list"
  | Obj "string \<Rightarrow> jsval option"

type_synonym obj = "string \<Rightarrow> jsval option"

datatype error = TypeError

text \<open>
  The value of an own property, \<^verbatim>\<open>undefined\<close> when the object has none under the key.
  This is what \<^verbatim>\<open>o[k]\<close> and a destructuring give for every key that \<^verbatim>\<open>Object.prototype\<close>
  does not define.
\<close>

definition get :: "obj \<Rightarrow> string \<Rightarrow> jsval" where
  "get m k = (case m k of None \<Rightarrow> Undefined | Some v \<Rightarrow> v)"

text \<open>
  The names \<^verbatim>\<open>Object.prototype\<close> defines. Every plain object inherits a value that is not
  \<^verbatim>\<open>undefined\<close> under each of them: a built-in function, or the prototype itself under
  \<^verbatim>\<open>__proto__\<close>.
\<close>

definition Object_prototype_keys :: "string list" where
  "Object_prototype_keys =
     [''constructor'', ''__defineGetter__'', ''__defineSetter__'', ''hasOwnProperty'',
      ''__lookupGetter__'', ''__lookupSetter__'', ''isPrototypeOf'', ''propertyIsEnumerable'',
      ''toString'', ''valueOf'', ''__proto__'', ''toLocaleString'']"

text \<open>
  Whether \<^verbatim>\<open>o[k] === undefined\<close> for a plain object: the own property decides when there is
  one, the prototype otherwise.
\<close>

definition reads_undefined :: "obj \<Rightarrow> string \<Rightarrow> bool" where
  "reads_undefined m k =
     (case m k of
        Some v \<Rightarrow> v = Undefined
      | None \<Rightarrow> k \<notin> set Object_prototype_keys)"

text \<open>ToBoolean, as \<^verbatim>\<open>||\<close> applies it. Minus zero prints as \<^verbatim>\<open>0\<close>.\<close>

fun truthy :: "jsval \<Rightarrow> bool" where
  "truthy Undefined = False"
| "truthy Null = False"
| "truthy (Bool b) = b"
| "truthy (Num n) = (n \<noteq> ''0'' \<and> n \<noteq> ''NaN'')"
| "truthy (Str s) = (s \<noteq> [])"
| "truthy (Arr xs) = True"
| "truthy (Obj m) = True"

text \<open>\<^verbatim>\<open>Util.isArray\<close> is \<^verbatim>\<open>Array.isArray\<close>.\<close>

fun isArray :: "jsval \<Rightarrow> bool" where
  "isArray (Arr xs) = True"
| "isArray v = False"

text \<open>The elements of an array.\<close>

fun elements :: "jsval \<Rightarrow> jsval list" where
  "elements (Arr xs) = xs"
| "elements v = []"

subsection \<open>ToString\<close>

fun join_comma :: "string list \<Rightarrow> string" where
  "join_comma [] = []"
| "join_comma [s] = s"
| "join_comma (s # t # ss) = s @ CHR '','' # join_comma (t # ss)"

text \<open>
  ToString, as a template literal and a computed property key apply it. An array prints
  its elements joined by commas, with \<^verbatim>\<open>null\<close> and \<^verbatim>\<open>undefined\<close> elements printed empty. A
  plain object prints as \<^verbatim>\<open>[object Object]\<close> through the \<^verbatim>\<open>toString\<close> it inherits; when it
  has an own property \<^verbatim>\<open>toString\<close>, that value is no function (there are none), ToString
  finds nothing to call that gives a primitive, and raises a TypeError.
\<close>

fun to_string :: "jsval \<Rightarrow> error + string" where
  "to_string Undefined = Inr ''undefined''"
| "to_string Null = Inr ''null''"
| "to_string (Bool b) = Inr (if b then ''true'' else ''false'')"
| "to_string (Num n) = Inr n"
| "to_string (Str s) = Inr s"
| "to_string (Arr xs) =
     (let rs = map (\<lambda>x. if x = Undefined \<or> x = Null then Inr [] else to_string x) xs
      in if list_ex isl rs then Inl TypeError else Inr (join_comma (map projr rs)))"
| "to_string (Obj m) = (if m ''toString'' = None then Inr ''[object Object]'' else Inl TypeError)"

subsection \<open>Own properties of values that are not plain objects\<close>

fun dec_nat :: "nat \<Rightarrow> string" where
  "dec_nat n =
     (if n < 10 then [''0123456789'' ! n]
      else dec_nat (n div 10) @ [''0123456789'' ! (n mod 10)])"

declare dec_nat.simps [simp del]

text \<open>The index properties \<^verbatim>\<open>"0"\<close>, \<^verbatim>\<open>"1"\<close>, ... of an array or of a string.\<close>

definition index_props :: "'a list \<Rightarrow> string \<Rightarrow> 'a option" where
  "index_props xs = map_of (zip (map dec_nat [0..<length xs]) xs)"

definition chars :: "string \<Rightarrow> jsval list" where
  "chars s = map (\<lambda>c. Str [c]) s"

text \<open>
  The properties a \<^verbatim>\<open>for (key in source)\<close> loop visits: the entries of a plain object,
  the index properties of an array or a string, nothing for the other values (the loop
  runs zero times on \<^verbatim>\<open>null\<close> and \<^verbatim>\<open>undefined\<close>). Nothing a prototype holds is enumerable.
\<close>

fun enum_props :: "jsval \<Rightarrow> obj" where
  "enum_props (Obj m) = m"
| "enum_props (Arr xs) = index_props xs"
| "enum_props (Str s) = index_props (chars s)"
| "enum_props v = Map.empty"

text \<open>
  The own property of a value under a key, if it has one: an entry of a plain object, an
  element or the \<^verbatim>\<open>length\<close> of an array or a string.
\<close>

fun own_member :: "jsval \<Rightarrow> string \<Rightarrow> jsval option" where
  "own_member (Obj m) k = m k"
| "own_member (Arr xs) k =
     (if k = ''length'' then Some (Num (dec_nat (length xs))) else index_props xs k)"
| "own_member (Str s) k =
     (if k = ''length'' then Some (Num (dec_nat (length s))) else index_props (chars s) k)"
| "own_member v k = None"

text \<open>
  The member access \<^verbatim>\<open>v[key]\<close>, as far as own properties go: a TypeError on \<^verbatim>\<open>null\<close> and
  \<^verbatim>\<open>undefined\<close>, and when the key has no string; else the own property under the key, if
  there is one. When there is none, the access gives \<^verbatim>\<open>undefined\<close> or what a prototype
  holds under the key (a built-in such as \<^verbatim>\<open>constructor\<close>), a value with nothing to
  enumerate.
\<close>

fun get_member :: "jsval \<Rightarrow> jsval \<Rightarrow> error + jsval option" where
  "get_member Undefined key = Inl TypeError"
| "get_member Null key = Inl TypeError"
| "get_member v key =
     (case to_string key of Inl e \<Rightarrow> Inl e | Inr k \<Rightarrow> Inr (own_member v k))"

section \<open>The library function Util.defaults\<close>

text \<open>
  \<^verbatim>\<open>Util.defaults(destination, ...sources)\<close> of cloudinary-core is imported, not defined,
  by the component. Its documented behaviour: "Assign values from sources if they are not
  defined in the destination. Once a value is set it does not change." It reduces over the
  sources from left to right; for each source it runs
  \<^verbatim>\<open>for (key in source) { value = source[key]; if (dest[key] === void 0) dest[key] = value; }\<close>
  and it returns the destination. So the FIRST source that defines a key wins; and since
  \<^verbatim>\<open>dest[key]\<close> reads through the prototype of the destination, a key that
  \<^verbatim>\<open>Object.prototype\<close> defines (\<^verbatim>\<open>toString\<close>, \<^verbatim>\<open>constructor\<close>, ...) is never copied.
\<close>

definition defaults_into :: "obj \<Rightarrow> jsval \<Rightarrow> obj" where
  "defaults_into dest source =
     (\<lambda>key. case enum_props source key of
        None \<Rightarrow> dest key
      | Some v \<Rightarrow> if reads_undefined dest key then Some v else dest key)"

definition Util_defaults :: "obj \<Rightarrow> jsval list \<Rightarrow> obj" where
  "Util_defaults destination sources = foldl defaults_into destination sources"

section \<open>The preconfigured cloudinary-core object\<close>

text \<open>
  \<^verbatim>\<open>cld\<close> is an instance of the CDN library, an opaque collaborator. It is modelled by
  the two methods the component calls: \<^verbatim>\<open>cld.url(publicId, options)\<close>, which returns a
  URL string, and \<^verbatim>\<open>cld.videoTag(publicId, options).attributes()\<close>, which returns a
  mapping of tag attributes.
\<close>

record cld =
  url :: "jsval \<Rightarrow> obj \<Rightarrow> string"
  videoTag_attributes :: "jsval \<Rightarrow> obj \<Rightarrow> obj"

section \<open>generateVideoUrl\<close>

text \<open>
  The options object of lines 38-46:
  \<^verbatim>\<open>Util.defaults({}, sourceTransformation, childTransformations,
      {resource_type: 'video', format: sourceType})\<close>.
\<close>

definition urlOptions :: "jsval \<Rightarrow> jsval \<Rightarrow> jsval \<Rightarrow> obj" where
  "urlOptions sourceTransformation childTransformations sourceType =
     Util_defaults Map.empty
       [sourceTransformation,
        childTransformations,
        Obj [''resource_type'' \<mapsto> Str ''video'', ''format'' \<mapsto> sourceType]]"

text \<open>
  Line 37, \<^verbatim>\<open>sourceTransformations[sourceType] || {}\<close>: the own property when it is truthy.
  Otherwise the value is \<^verbatim>\<open>{}\<close>, or a built-in that a prototype holds under the key; the
  only reader of the value is the loop of \<^verbatim>\<open>Util.defaults\<close>, which finds nothing to
  enumerate in either, so the model takes \<^verbatim>\<open>{}\<close>.
\<close>

definition or_empty :: "jsval option \<Rightarrow> jsval" where
  "or_empty found =
     (case found of
        Some v \<Rightarrow> if truthy v then v else Obj Map.empty
      | None \<Rightarrow> Obj Map.empty)"

definition generateVideoUrl :: "cld \<Rightarrow> jsval \<Rightarrow> jsval \<Rightarrow> jsval \<Rightarrow> jsval \<Rightarrow> error + string" where
  "generateVideoUrl cld publicId childTransformations sourceTransformations sourceType =
     (case get_member sourceTransformations sourceType of
        Inl e \<Rightarrow> Inl e
      | Inr found \<Rightarrow>
          let sourceTransformation = or_empty found
          in Inr (url cld publicId
                    (urlOptions sourceTransformation childTransformations sourceType)))"

section \<open>generateVideoUrl over a store of mutable objects\<close>

text \<open>
  JavaScript passes objects by reference, and \<^verbatim>\<open>Util.defaults\<close> assigns to its first
  argument in place. To say which objects a call changes, this second model of
  \<^verbatim>\<open>generateVideoUrl\<close> keeps the objects in a store: a list of objects, an address being
  an index, a new object being appended. A property holds a primitive value or a
  reference. An array is an object whose enumerable properties are its indices. The
  format token is a string here.
\<close>

datatype sval = SUndefined | SNull | SBool bool | SNum string | SStr string | SRef nat

type_synonym sobj = "string \<Rightarrow> sval option"

type_synonym store = "sobj list"

definition sget :: "sobj \<Rightarrow> string \<Rightarrow> sval" where
  "sget m k = (case m k of None \<Rightarrow> SUndefined | Some v \<Rightarrow> v)"

definition sreads_undefined :: "sobj \<Rightarrow> string \<Rightarrow> bool" where
  "sreads_undefined m k =
     (case m k of
        Some v \<Rightarrow> v = SUndefined
      | None \<Rightarrow> k \<notin> set Object_prototype_keys)"

fun struthy :: "sval \<Rightarrow> bool" where
  "struthy SUndefined = False"
| "struthy SNull = False"
| "struthy (SBool b) = b"
| "struthy (SNum n) = (n \<noteq> ''0'' \<and> n \<noteq> ''NaN'')"
| "struthy (SStr s) = (s \<noteq> [])"
| "struthy (SRef a) = True"

text \<open>The object at an address (a reference always points into the store).\<close>

definition deref :: "store \<Rightarrow> nat \<Rightarrow> sobj" where
  "deref h a = (if a < length h then h ! a else Map.empty)"

definition alloc :: "store \<Rightarrow> sobj \<Rightarrow> store \<times> nat" where
  "alloc h ob = (h @ [ob], length h)"

fun senum_props :: "store \<Rightarrow> sval \<Rightarrow> sobj" where
  "senum_props h (SRef a) = deref h a"
| "senum_props h (SStr s) = index_props (map (\<lambda>c. SStr [c]) s)"
| "senum_props h v = Map.empty"

text \<open>
  The member access, as far as own properties go: \<^verbatim>\<open>undefined\<close> stands also for a built-in
  that a prototype holds under the key. Line 37 then keeps the built-in where the model
  allocates an empty object; neither has anything to enumerate.
\<close>

fun sget_member :: "store \<Rightarrow> sval \<Rightarrow> string \<Rightarrow> error + sval" where
  "sget_member h SUndefined key = Inl TypeError"
| "sget_member h SNull key = Inl TypeError"
| "sget_member h (SRef a) key = Inr (sget (deref h a) key)"
| "sget_member h (SStr s) key =
     Inr (if key = ''length'' then SNum (dec_nat (length s))
          else sget (index_props (map (\<lambda>c. SStr [c]) s)) key)"
| "sget_member h v key = Inr SUndefined"

text \<open>
  One source of \<^verbatim>\<open>Util.defaults\<close>: the loop
  \<^verbatim>\<open>for (key in source) { if (dest[key] === void 0) dest[key] = source[key]; }\<close>
  writes to the object at the address \<open>dest\<close> and to no other.
\<close>

definition defaults_into_s :: "nat \<Rightarrow> store \<Rightarrow> sval \<Rightarrow> store" where
  "defaults_into_s dest h source =
     h[dest := (\<lambda>key. case senum_props h source key of
                  None \<Rightarrow> deref h dest key
                | Some v \<Rightarrow> if sreads_undefined (deref h dest) key then Some v
                            else deref h dest key)]"

definition Util_defaults_s :: "store \<Rightarrow> nat \<Rightarrow> sval list \<Rightarrow> store" where
  "Util_defaults_s h destination sources = foldl (defaults_into_s destination) h sources"

text \<open>
  Lines 37-48 again. The three object literals are allocated in the order the source
  evaluates them: the \<^verbatim>\<open>{}\<close> of \<^verbatim>\<open>|| {}\<close> (when the left operand is falsy), the \<^verbatim>\<open>{}\<close> that
  is the destination, the literal with the two fields. The service reads the store.
\<close>

definition generateVideoUrl_s ::
  "(store \<Rightarrow> sval \<Rightarrow> sval \<Rightarrow> string) \<Rightarrow> store \<Rightarrow> sval \<Rightarrow> sval \<Rightarrow> sval \<Rightarrow> string
     \<Rightarrow> (error + string) \<times> store" where
  "generateVideoUrl_s cld_url h publicId childTransformations sourceTransformations sourceType =
     (case sget_member h sourceTransformations sourceType of
        Inl e \<Rightarrow> (Inl e, h)
      | Inr v \<Rightarrow>
          let (h1, sourceTransformation) =
                (if struthy v then (h, v)
                 else (let (h', a) = alloc h Map.empty in (h', SRef a)));
              (h2, destination) = alloc h1 Map.empty;
              (h3, forced) =
                alloc h2 [''resource_type'' \<mapsto> SStr ''video'', ''format'' \<mapsto> SStr sourceType];
              h4 = Util_defaults_s h3 destination
                     [sourceTransformation, childTransformations, SRef forced]
          in (Inr (cld_url h4 publicId (SRef destination)), h4))"

section \<open>generateSources\<close>

text \<open>The instance field \<^verbatim>\<open>mimeType = 'video'\<close> (line 11).\<close>

definition mimeType :: string where
  "mimeType = ''video''"

text \<open>The element \<^verbatim>\<open><source key={mimeType} src={src} type={mimeType} />\<close> (line 79).\<close>

record source =
  source_key :: string
  source_src :: string
  source_type :: string

text \<open>
  \<^verbatim>\<open>Array.prototype.map\<close> with a callback that may throw: the elements are visited in
  order and the first exception ends the loop.
\<close>

fun map_result :: "('a \<Rightarrow> error + 'b) \<Rightarrow> 'a list \<Rightarrow> error + 'b list" where
  "map_result f [] = Inr []"
| "map_result f (x # xs) =
     (case f x of
        Inl e \<Rightarrow> Inl e
      | Inr y \<Rightarrow> (case map_result f xs of Inl e \<Rightarrow> Inl e | Inr ys \<Rightarrow> Inr (y # ys)))"

text \<open>
  The template literal of lines 75-77:
  \<^verbatim>\<open>`${this.mimeType}/${sourceType === 'ogv' ? 'ogg' : sourceType}`\<close>.
\<close>

definition sourceMimeType :: "jsval \<Rightarrow> error + string" where
  "sourceMimeType sourceType =
     (case to_string (if sourceType = Str ''ogv'' then Str ''ogg'' else sourceType) of
        Inl e \<Rightarrow> Inl e
      | Inr s \<Rightarrow> Inr (mimeType @ ''/'' @ s))"

text \<open>The callback of lines 67-80, for one element of the array.\<close>

definition generateSource :: "cld \<Rightarrow> jsval \<Rightarrow> jsval \<Rightarrow> jsval \<Rightarrow> jsval \<Rightarrow> error + source" where
  "generateSource cld publicId childTransformations sourceTransformations sourceType =
     (case generateVideoUrl cld publicId childTransformations sourceTransformations sourceType of
        Inl e \<Rightarrow> Inl e
      | Inr u \<Rightarrow>
          (case sourceMimeType sourceType of
             Inl e \<Rightarrow> Inl e
           | Inr m \<Rightarrow> Inr \<lparr>source_key = m, source_src = u, source_type = m\<rparr>))"

text \<open>\<^verbatim>\<open>sourceTypes\<close> is the list of elements of the array the caller passes.\<close>

definition generateSources ::
  "cld \<Rightarrow> jsval \<Rightarrow> jsval \<Rightarrow> jsval \<Rightarrow> jsval list \<Rightarrow> error + source list" where
  "generateSources cld publicId childTransformations sourceTransformations sourceTypes =
     map_result (generateSource cld publicId childTransformations sourceTransformations)
       sourceTypes"

section \<open>getMergedProps\<close>

text \<open>
  \<^verbatim>\<open>{ ...this.getContext(), ...this.props }\<close> (line 18). \<^verbatim>\<open>getContext\<close> is inherited from
  the base class \<^verbatim>\<open>CloudinaryComponent\<close>; its result, the ambient context, is the parameter
  \<open>ctx\<close>. An object spread copies the entries of its operands from left to
  right, a later entry replacing an earlier one of the same key.
\<close>

definition getMergedProps :: "obj \<Rightarrow> obj \<Rightarrow> obj" where
  "getMergedProps ctx props = ctx ++ props"

section \<open>The collaborators of getVideoTagProps\<close>

text \<open>
  \<^verbatim>\<open>extractCloudinaryProps\<close> returns three mappings.
\<close>

record extracted =
  cloudinaryProps :: obj
  cloudinaryReactProps :: obj
  nonCloudinaryProps :: obj

text \<open>
  The functions \<^verbatim>\<open>getVideoTagProps\<close> calls and the component does not define: of the
  base class (\<^verbatim>\<open>CloudinaryComponent.normalizeOptions(options, {})\<close>,
  \<^verbatim>\<open>this.getTransformation\<close>), of the repository's \<^verbatim>\<open>Util\<close> module
  (\<^verbatim>\<open>extractCloudinaryProps\<close>), and of cloudinary-core (\<^verbatim>\<open>Util.withSnakeCaseKeys\<close>,
  \<^verbatim>\<open>Util.withCamelCaseKeys\<close>, \<^verbatim>\<open>Cloudinary.new\<close>). The component inherits or imports them,
  so each is a parameter: an arbitrary function of its arguments.
\<close>

record env =
  normalizeOptions :: "obj \<Rightarrow> obj"
  extractCloudinaryProps :: "obj \<Rightarrow> extracted"
  withSnakeCaseKeys :: "obj \<Rightarrow> obj"
  withCamelCaseKeys :: "obj \<Rightarrow> obj"
  Cloudinary_new :: "obj \<Rightarrow> cld"
  getTransformation :: "obj \<Rightarrow> jsval"

section \<open>getVideoTagProps\<close>

text \<open>
  The local bindings of lines 87-120, each as a function of the merged props. The rest
  pattern \<^verbatim>\<open>...options\<close> of the destructuring keeps every entry but the six named ones.
\<close>

definition destructured_keys :: "string list" where
  "destructured_keys =
     [''innerRef'', ''publicId'', ''fallback'', ''children'', ''sourceTypes'',
      ''sourceTransformation'']"

definition rest_options :: "obj \<Rightarrow> obj" where
  "rest_options merged = merged |` (- set destructured_keys)"

text \<open>
  \<^verbatim>\<open>sourceTransformation = {}\<close>: the default of a destructuring applies when the value is
  \<^verbatim>\<open>undefined\<close>, and only then (\<^verbatim>\<open>null\<close> stays).
\<close>

definition local_sourceTransformation :: "obj \<Rightarrow> jsval" where
  "local_sourceTransformation merged =
     (if get merged ''sourceTransformation'' = Undefined then Obj Map.empty
      else get merged ''sourceTransformation'')"

text \<open>Lines 97-102.\<close>

definition local_extracted :: "env \<Rightarrow> obj \<Rightarrow> extracted" where
  "local_extracted env merged =
     extractCloudinaryProps env (normalizeOptions env (rest_options merged))"

text \<open>Line 103: \<^verbatim>\<open>options = { ...cloudinaryProps, ...cloudinaryReactProps }\<close>.\<close>

definition local_options :: "env \<Rightarrow> obj \<Rightarrow> obj" where
  "local_options env merged =
     cloudinaryProps (local_extracted env merged) ++ cloudinaryReactProps (local_extracted env merged)"

text \<open>Lines 106-107.\<close>

definition local_cld :: "env \<Rightarrow> obj \<Rightarrow> cld" where
  "local_cld env merged = Cloudinary_new env (withSnakeCaseKeys env (local_options env merged))"

text \<open>
  Line 110 and line 112: the attributes the library computes, with camel-case keys.
\<close>

definition local_providerAttributes :: "env \<Rightarrow> obj \<Rightarrow> obj" where
  "local_providerAttributes env merged =
     withCamelCaseKeys env
       (videoTag_attributes (local_cld env merged) (get merged ''publicId'') (local_options env merged))"

text \<open>
  Lines 111-114: the entries of \<^verbatim>\<open>nonCloudinaryProps\<close> spread over the attributes of the
  library.
\<close>

definition local_tagAttributes :: "env \<Rightarrow> obj \<Rightarrow> obj" where
  "local_tagAttributes env merged =
     local_providerAttributes env merged ++ nonCloudinaryProps (local_extracted env merged)"

text \<open>Lines 117-120: \<^verbatim>\<open>this.getTransformation({ ...options, children })\<close>.\<close>

definition local_childTransformations :: "env \<Rightarrow> obj \<Rightarrow> jsval" where
  "local_childTransformations env merged =
     getTransformation env ((local_options env merged)(''children'' \<mapsto> get merged ''children''))"

text \<open>The result \<^verbatim>\<open>{ sources, tagAttributes }\<close>; \<^verbatim>\<open>sources\<close> is \<^verbatim>\<open>null\<close> or an array.\<close>

record videoTagProps =
  sources :: "source list option"
  tagAttributes :: obj

definition getVideoTagProps :: "env \<Rightarrow> obj \<Rightarrow> obj \<Rightarrow> error + videoTagProps" where
  "getVideoTagProps env ctx props =
     (let merged = getMergedProps ctx props;
          publicId = get merged ''publicId'';
          sourceTypes = get merged ''sourceTypes'';
          sourceTransformation = local_sourceTransformation merged;
          cld = local_cld env merged;
          tagAttributes = local_tagAttributes env merged;
          childTransformations = local_childTransformations env merged
      in if isArray sourceTypes then
           (case generateSources cld publicId childTransformations sourceTransformation
                   (elements sourceTypes) of
              Inl e \<Rightarrow> Inl e
            | Inr ss \<Rightarrow> Inr \<lparr>sources = Some ss, tagAttributes = tagAttributes\<rparr>)
         else
           (case generateVideoUrl cld publicId childTransformations sourceTransformation
                   sourceTypes of
              Inl e \<Rightarrow> Inl e
            | Inr u \<Rightarrow> Inr \<lparr>sources = None, tagAttributes = tagAttributes(''src'' \<mapsto> Str u)\<rparr>))"


definition printable :: "jsval \<Rightarrow> bool" where
  "printable v = (case to_string v of Inr s \<Rightarrow> True | Inl e \<Rightarrow> False)"

section \<open>Default props\<close>




section \<open>getVideoTagProps over a heap\<close>

text \<open>
  The method again, with the objects it shares and the objects it creates kept in a heap:
  a list of objects, an address being an index. The heap holds the props and the context
  of the instance, which every call reads, and every plain object the method builds with
  a literal or a spread: the merged props (line 18), the rest of the destructuring (line
  94), the options (line 103), the tag attributes (line 111), the argument of
  \<^verbatim>\<open>getTransformation\<close> (line 117) and the destination of \<^verbatim>\<open>Util.defaults\<close> (line 39). The
  two assignments to an object are writes in place: the loop of \<^verbatim>\<open>Util.defaults\<close> writes
  to its destination and line 135 writes \<^verbatim>\<open>src\<close> to the tag attributes. The values of the
  properties are values as before, and the collaborators are functions of the contents of
  the objects they are given.
\<close>

type_synonym heap = "obj list"

definition object_at :: "heap \<Rightarrow> nat \<Rightarrow> obj" where
  "object_at h a = (if a < length h then h ! a else Map.empty)"

definition new_object :: "heap \<Rightarrow> obj \<Rightarrow> heap \<times> nat" where
  "new_object h ob = (h @ [ob], length h)"

text \<open>The assignment \<^verbatim>\<open>o[k] = v\<close> to the object at an address.\<close>

definition write_property :: "heap \<Rightarrow> nat \<Rightarrow> string \<Rightarrow> jsval \<Rightarrow> heap" where
  "write_property h a k v = h[a := (object_at h a)(k \<mapsto> v)]"

text \<open>\<^verbatim>\<open>Util.defaults\<close>, writing to the object at the address \<open>destination\<close>.\<close>

definition Util_defaults_h :: "heap \<Rightarrow> nat \<Rightarrow> jsval list \<Rightarrow> heap" where
  "Util_defaults_h h destination srcs =
     foldl (\<lambda>h' source. h'[destination := defaults_into (object_at h' destination) source])
       h srcs"

definition generateVideoUrl_h ::
  "cld \<Rightarrow> heap \<Rightarrow> jsval \<Rightarrow> jsval \<Rightarrow> jsval \<Rightarrow> jsval \<Rightarrow> (error + string) \<times> heap" where
  "generateVideoUrl_h cld h publicId childTransformations sourceTransformations sourceType =
     (case get_member sourceTransformations sourceType of
        Inl e \<Rightarrow> (Inl e, h)
      | Inr found \<Rightarrow>
          let sourceTransformation = or_empty found;
              (h1, destination) = new_object h Map.empty;
              h2 = Util_defaults_h h1 destination
                     [sourceTransformation,
                      childTransformations,
                      Obj [''resource_type'' \<mapsto> Str ''video'', ''format'' \<mapsto> sourceType]]
          in (Inr (url cld publicId (object_at h2 destination)), h2))"

fun generateSources_h ::
  "cld \<Rightarrow> heap \<Rightarrow> jsval \<Rightarrow> jsval \<Rightarrow> jsval \<Rightarrow> jsval list \<Rightarrow> (error + source list) \<times> heap" where
  "generateSources_h cld h publicId childTransformations sourceTransformations [] = (Inr [], h)"
| "generateSources_h cld h publicId childTransformations sourceTransformations
       (sourceType # sourceTypes) =
     (case generateVideoUrl_h cld h publicId childTransformations sourceTransformations
             sourceType of
        (Inl e, h1) \<Rightarrow> (Inl e, h1)
      | (Inr u, h1) \<Rightarrow>
          (case sourceMimeType sourceType of
             Inl e \<Rightarrow> (Inl e, h1)
           | Inr m \<Rightarrow>
               (case generateSources_h cld h1 publicId childTransformations
                       sourceTransformations sourceTypes of
                  (Inl e, h2) \<Rightarrow> (Inl e, h2)
                | (Inr ss, h2) \<Rightarrow>
                    (Inr (\<lparr>source_key = m, source_src = u, source_type = m\<rparr> # ss), h2))))"

text \<open>
  The method: \<open>this_context\<close> and \<open>this_props\<close> are the addresses of the context and of
  the props. The result holds the sources and the address of the tag attributes.
\<close>

definition getVideoTagProps_h ::
  "env \<Rightarrow> heap \<Rightarrow> nat \<Rightarrow> nat \<Rightarrow> (error + source list option \<times> nat) \<times> heap" where
  "getVideoTagProps_h env h this_context this_props =
     (let (h1, merged) = new_object h (object_at h this_context ++ object_at h this_props);
          publicId = get (object_at h1 merged) ''publicId'';
          children = get (object_at h1 merged) ''children'';
          sourceTypes = get (object_at h1 merged) ''sourceTypes'';
          sourceTransformation =
            (if get (object_at h1 merged) ''sourceTransformation'' = Undefined then Obj Map.empty
             else get (object_at h1 merged) ''sourceTransformation'');
          (h2, rest) = new_object h1 (object_at h1 merged |` (- set destructured_keys));
          extracted = extractCloudinaryProps env (normalizeOptions env (object_at h2 rest));
          (h3, options) =
            new_object h2 (cloudinaryProps extracted ++ cloudinaryReactProps extracted);
          cld = Cloudinary_new env (withSnakeCaseKeys env (object_at h3 options));
          (h4, tagAttributes) =
            new_object h3
              (withCamelCaseKeys env (videoTag_attributes cld publicId (object_at h3 options))
               ++ nonCloudinaryProps extracted);
          (h5, argument) =
            new_object h4 ((object_at h4 options)(''children'' \<mapsto> children));
          childTransformations = getTransformation env (object_at h5 argument)
      in if isArray sourceTypes then
           (case generateSources_h cld h5 publicId childTransformations sourceTransformation
                   (elements sourceTypes) of
              (Inl e, h6) \<Rightarrow> (Inl e, h6)
            | (Inr ss, h6) \<Rightarrow> (Inr (Some ss, tagAttributes), h6))
         else
           (case generateVideoUrl_h cld h5 publicId childTransformations sourceTransformation
                   sourceTypes of
              (Inl e, h6) \<Rightarrow> (Inl e, h6)
            | (Inr u, h6) \<Rightarrow>
                (Inr (None, tagAttributes), write_property h6 tagAttributes ''src'' (Str u))))"

text \<open>
  The five objects a call allocates before it branches, and the heap it branches in.
\<close>

definition allocated :: "env \<Rightarrow> obj \<Rightarrow> obj list" where
  "allocated env merged =
     [merged, rest_options merged, local_options env merged, local_tagAttributes env merged,
      (local_options env merged)(''children'' \<mapsto> get merged ''children'')]"

text \<open>The result as its reader finds it in a heap.\<close>

definition result_in :: "heap \<Rightarrow> source list option \<times> nat \<Rightarrow> videoTagProps" where
  "result_in h r = \<lparr>sources = fst r, tagAttributes = object_at h (snd r)\<rparr>"

section \<open>The options as the specification words them\<close>

text \<open>
  The specification describes the options of the URL resolver as a merge "in precedence
  order low to high": the override of the format, then the element-level transformation,
  then the two forced fields, a later layer replacing an earlier one. This definition
  follows those words; it is compared with \<open>urlOptions\<close> below.
\<close>

definition spec_urlOptions :: "jsval \<Rightarrow> jsval \<Rightarrow> jsval \<Rightarrow> obj" where
  "spec_urlOptions sourceTransformation childTransformations sourceType =
     enum_props sourceTransformation ++ enum_props childTransformations
       ++ [''resource_type'' \<mapsto> Str ''video'', ''format'' \<mapsto> sourceType]"

section \<open>Stand-ins for the collaborators\<close>

text \<open>
  Concrete collaborators, used to run the component on concrete inputs. The URL service
  prints the public id, the format and the quality it is given; the attribute service
  returns its options and a \<^verbatim>\<open>poster\<close>; \<^verbatim>\<open>extractCloudinaryProps\<close> recognises the key
  \<^verbatim>\<open>width\<close> only.
\<close>

definition printed :: "jsval \<Rightarrow> string" where
  "printed v = (case to_string v of Inr s \<Rightarrow> s | Inl e \<Rightarrow> [])"

definition fake_cld :: cld where
  "fake_cld =
     \<lparr>url = (\<lambda>publicId options.
               printed publicId @ ''.'' @ printed (get options ''format'') @ ''?q=''
                 @ printed (get options ''quality'')),
      videoTag_attributes = (\<lambda>publicId options. options(''poster'' \<mapsto> Str ''auto.jpg''))\<rparr>"

definition fake_env :: env where
  "fake_env =
     \<lparr>normalizeOptions = (\<lambda>options. options),
      extractCloudinaryProps =
        (\<lambda>options. \<lparr>cloudinaryProps = options |` {''width''},
                     cloudinaryReactProps = Map.empty,
                     nonCloudinaryProps = options |` (- {''width''})\<rparr>),
      withSnakeCaseKeys = (\<lambda>options. options),
      withCamelCaseKeys = (\<lambda>options. options),
      Cloudinary_new = (\<lambda>options. fake_cld),
      getTransformation = (\<lambda>options. Obj Map.empty)\<rparr>"

text \<open>
  Props of elements: several formats, one format, no format selector, an empty list of
  formats; and the first three again with \<^verbatim>\<open>null\<close> for the mapping of overrides.
\<close>

definition multi_props :: obj where
  "multi_props =
     [''publicId'' \<mapsto> Str ''sample'',
      ''sourceTypes'' \<mapsto> Arr [Str ''mp4'', Str ''ogv'', Str ''mp4''],
      ''poster'' \<mapsto> Str ''mine.jpg'']"

definition single_props :: obj where
  "single_props =
     [''publicId'' \<mapsto> Str ''sample'', ''sourceTypes'' \<mapsto> Str ''webm'', ''src'' \<mapsto> Str ''mine'']"


definition empty_props :: obj where
  "empty_props =
     [''publicId'' \<mapsto> Str ''sample'', ''sourceTypes'' \<mapsto> Arr [],
      ''sourceTransformation'' \<mapsto> Null]"




text \<open>
  A store for the model over the store, holding a mapping of overrides at address 0,
  the override of \<^verbatim>\<open>mp4\<close> at address 1 and an element-level transformation at address 2;
  and a URL service that prints the format and the quality of its options.
\<close>

definition sample_store :: store where
  "sample_store =
     [ [''mp4'' \<mapsto> SRef 1], [''quality'' \<mapsto> SNum ''50''], [''quality'' \<mapsto> SNum ''80'']]"

definition fake_cld_url_s :: "store \<Rightarrow> sval \<Rightarrow> sval \<Rightarrow> string" where
  "fake_cld_url_s h publicId options =
     (case options of
        SRef d \<Rightarrow>
          (case sget (deref h d) ''format'' of SStr f \<Rightarrow> f | _ \<Rightarrow> [])
          @ (case sget (deref h d) ''quality'' of SNum q \<Rightarrow> CHR ''?'' # q | _ \<Rightarrow> [])
      | _ \<Rightarrow> [])"

text \<open>A heap that holds an empty context at address 0 and props at address 1.\<close>

definition sample_heap :: heap where
  "sample_heap = [Map.empty, single_props]"

section \<open>Util.defaults: the first defined value wins\<close>

lemma reads_undefined_get:
  "k \<notin> set Object_prototype_keys \<Longrightarrow> reads_undefined m k = (get m k = Undefined)"
  by (simp add: reads_undefined_def get_def split: option.splits)

lemma get_defaults_into:
  "k \<notin> set Object_prototype_keys \<Longrightarrow>
     get (defaults_into dest source) k =
       (if get dest k = Undefined then get (enum_props source) k else get dest k)"
  by (auto simp: defaults_into_def reads_undefined_def get_def split: option.splits)

lemma defaults_into_inherited:
  "k \<in> set Object_prototype_keys \<Longrightarrow> dest k = None \<Longrightarrow> defaults_into dest source k = None"
  by (simp add: defaults_into_def reads_undefined_def split: option.splits)

lemma dom_defaults_into:
  assumes "dom dest \<inter> set Object_prototype_keys = {}"
  shows "dom (defaults_into dest source) =
           dom dest \<union> (dom (enum_props source) - set Object_prototype_keys)"
proof (rule set_eqI)
  fix k
  show "(k \<in> dom (defaults_into dest source)) =
          (k \<in> dom dest \<union> (dom (enum_props source) - set Object_prototype_keys))"
  proof (cases "k \<in> set Object_prototype_keys")
    case True
    with assms have "dest k = None" by auto
    with True show ?thesis by (simp add: defaults_into_inherited dom_def)
  next
    case False
    then show ?thesis
      by (auto simp: defaults_into_def reads_undefined_def dom_def split: option.splits if_splits)
  qed
qed

lemma urlOptions_inherited:
  "k \<in> set Object_prototype_keys \<Longrightarrow> urlOptions st ch t k = None"
  by (simp add: urlOptions_def Util_defaults_def defaults_into_inherited)

lemma get_urlOptions:
  "k \<notin> set Object_prototype_keys \<Longrightarrow>
   get (urlOptions st ch t) k =
     (if get (enum_props st) k \<noteq> Undefined then get (enum_props st) k
      else if get (enum_props ch) k \<noteq> Undefined then get (enum_props ch) k
      else get [''resource_type'' \<mapsto> Str ''video'', ''format'' \<mapsto> t] k)"
  by (simp add: urlOptions_def Util_defaults_def get_defaults_into) (simp add: get_def)

lemma dom_urlOptions:
  "dom (urlOptions st ch t) =
     (dom (enum_props st) \<union> dom (enum_props ch) \<union> {''resource_type'', ''format''})
       - set Object_prototype_keys"
proof -
  let ?forced = "Obj [''resource_type'' \<mapsto> Str ''video'', ''format'' \<mapsto> t]"
  let ?d1 = "defaults_into Map.empty st"
  let ?d2 = "defaults_into ?d1 ch"
  have 1: "dom ?d1 = dom (enum_props st) - set Object_prototype_keys"
    by (simp add: dom_defaults_into)
  then have i1: "dom ?d1 \<inter> set Object_prototype_keys = {}" by auto
  have 2: "dom ?d2 = dom ?d1 \<union> (dom (enum_props ch) - set Object_prototype_keys)"
    by (rule dom_defaults_into [OF i1])
  then have i2: "dom ?d2 \<inter> set Object_prototype_keys = {}" using i1 by auto
  have 3: "dom (defaults_into ?d2 ?forced) =
             dom ?d2 \<union> (dom (enum_props ?forced) - set Object_prototype_keys)"
    by (rule dom_defaults_into [OF i2])
  have "dom (urlOptions st ch t) = dom (defaults_into ?d2 ?forced)"
    by (simp add: urlOptions_def Util_defaults_def)
  also have "\<dots> = (dom (enum_props st) \<union> dom (enum_props ch) \<union> {''resource_type'', ''format''})
       - set Object_prototype_keys"
    unfolding 3 2 1 by auto
  finally show ?thesis .
qed

section \<open>generateVideoUrl\<close>

lemma generateVideoUrl_Obj:
  "generateVideoUrl cld publicId ch (Obj sts) (Str t) =
     Inr (url cld publicId (urlOptions (or_empty (sts t)) ch (Str t)))"
  by (simp add: generateVideoUrl_def Let_def)


text \<open>
  C1, as the specification states it, fails: the options are not the low-to-high merge
  with the forced fields on top. For the public id \<^verbatim>\<open>sample\<close>, the element-level
  transformation \<^verbatim>\<open>{quality: 80}\<close>, the overrides
  \<^verbatim>\<open>{mp4: {quality: 50, format: 'webm'}}\<close> and the format \<^verbatim>\<open>mp4\<close>, the service is called
  with quality 50 and format \<^verbatim>\<open>webm\<close>, where the merge of the specification has quality
  80 and format \<^verbatim>\<open>mp4\<close>.
\<close>

theorem generateVideoUrl_forced_fields_counterexample:
  "generateVideoUrl fake_cld (Str ''sample'') (Obj [''quality'' \<mapsto> Num ''80''])
       (Obj [''mp4'' \<mapsto> Obj [''quality'' \<mapsto> Num ''50'', ''format'' \<mapsto> Str ''webm'']]) (Str ''mp4'')
     = Inr ''sample.webm?q=50''
   \<and> url fake_cld (Str ''sample'')
         (spec_urlOptions (Obj [''quality'' \<mapsto> Num ''50'', ''format'' \<mapsto> Str ''webm''])
            (Obj [''quality'' \<mapsto> Num ''80'']) (Str ''mp4''))
     = ''sample.mp4?q=80''
   \<and> generateVideoUrl fake_cld (Str ''sample'') (Obj [''quality'' \<mapsto> Num ''80''])
       (Obj [''mp4'' \<mapsto> Obj [''quality'' \<mapsto> Num ''50'', ''format'' \<mapsto> Str ''webm'']]) (Str ''mp4'')
     \<noteq> Inr (url fake_cld (Str ''sample'')
              (spec_urlOptions (Obj [''quality'' \<mapsto> Num ''50'', ''format'' \<mapsto> Str ''webm''])
                 (Obj [''quality'' \<mapsto> Num ''80'']) (Str ''mp4'')))"
proof -
  have q: "''quality'' \<notin> set Object_prototype_keys" and f: "''format'' \<notin> set Object_prototype_keys"
    by (simp_all add: Object_prototype_keys_def)
  have code: "generateVideoUrl fake_cld (Str ''sample'') (Obj [''quality'' \<mapsto> Num ''80''])
       (Obj [''mp4'' \<mapsto> Obj [''quality'' \<mapsto> Num ''50'', ''format'' \<mapsto> Str ''webm'']]) (Str ''mp4'')
     = Inr ''sample.webm?q=50''"
    apply (simp add: generateVideoUrl_Obj fake_cld_def or_empty_def get_urlOptions [OF q]
             get_urlOptions [OF f])
    apply (simp add: get_def printed_def)
    done
  have spec: "url fake_cld (Str ''sample'')
         (spec_urlOptions (Obj [''quality'' \<mapsto> Num ''50'', ''format'' \<mapsto> Str ''webm''])
            (Obj [''quality'' \<mapsto> Num ''80'']) (Str ''mp4''))
     = ''sample.mp4?q=80''"
    by (simp add: fake_cld_def spec_urlOptions_def get_def printed_def)
  show ?thesis unfolding code spec by simp
qed

text \<open>
  C1, amended: for every public id, element-level transformation, mapping of overrides
  and format token, \<^verbatim>\<open>generateVideoUrl\<close> returns what the URL service returns for the public
  id and the options built by \<^verbatim>\<open>Util.defaults\<close>. The override is the entry of the mapping
  for that exact token, or the empty mapping when the entry is missing or falsy. The
  precedence is high to low: the value of a key is the override's when the override
  defines it, else the element-level transformation's when that defines it, else the
  field's (\<^verbatim>\<open>'video'\<close> under \<^verbatim>\<open>resource_type\<close>, the token under \<^verbatim>\<open>format\<close>). The two fields
  are defaults: they lose every collision with a defined value. The keys of the options
  are those of the override, of the element-level transformation and the two fields,
  without the names \<^verbatim>\<open>Object.prototype\<close> defines (\<^verbatim>\<open>toString\<close>, \<^verbatim>\<open>constructor\<close>, ...), which
  \<^verbatim>\<open>Util.defaults\<close> never copies.
\<close>

theorem generateVideoUrl_first_defined_wins:
  "(let sourceTransformation = or_empty (sourceTransformations sourceType);
        options = urlOptions sourceTransformation childTransformations (Str sourceType)
    in generateVideoUrl cld publicId childTransformations (Obj sourceTransformations) (Str sourceType)
         = Inr (url cld publicId options)
       \<and> dom options =
           (dom (enum_props sourceTransformation) \<union> dom (enum_props childTransformations)
              \<union> {''resource_type'', ''format''}) - set Object_prototype_keys
       \<and> get options k =
           (if k \<in> set Object_prototype_keys then Undefined
            else if get (enum_props sourceTransformation) k \<noteq> Undefined
              then get (enum_props sourceTransformation) k
            else if get (enum_props childTransformations) k \<noteq> Undefined
              then get (enum_props childTransformations) k
            else get [''resource_type'' \<mapsto> Str ''video'', ''format'' \<mapsto> Str sourceType] k))"
proof -
  let ?st = "or_empty (sourceTransformations sourceType)"
  let ?options = "urlOptions ?st childTransformations (Str sourceType)"
  have run: "generateVideoUrl cld publicId childTransformations (Obj sourceTransformations)
               (Str sourceType) = Inr (url cld publicId ?options)"
    by (rule generateVideoUrl_Obj)
  have keys: "dom ?options =
           (dom (enum_props ?st) \<union> dom (enum_props childTransformations)
              \<union> {''resource_type'', ''format''}) - set Object_prototype_keys"
    by (rule dom_urlOptions)
  have val: "get ?options k =
           (if k \<in> set Object_prototype_keys then Undefined
            else if get (enum_props ?st) k \<noteq> Undefined then get (enum_props ?st) k
            else if get (enum_props childTransformations) k \<noteq> Undefined
              then get (enum_props childTransformations) k
            else get [''resource_type'' \<mapsto> Str ''video'', ''format'' \<mapsto> Str sourceType] k)"
  proof (cases "k \<in> set Object_prototype_keys")
    case True
    then show ?thesis by (simp add: urlOptions_inherited get_def)
  next
    case False
    then show ?thesis by (simp only: get_urlOptions [OF False] if_False)
  qed
  from run keys val show ?thesis unfolding Let_def by blast
qed

text \<open>
  An override and an element-level transformation that both define \<^verbatim>\<open>valueOf\<close>: the
  options get no such key.
\<close>

lemma urlOptions_valueOf:
  "urlOptions (Obj [''valueOf'' \<mapsto> Str ''x'']) (Obj [''valueOf'' \<mapsto> Str ''y'']) (Str ''mp4'')
     ''valueOf'' = None"
  by (rule urlOptions_inherited) (simp add: Object_prototype_keys_def)

lemma get_member_Str:
  "sts \<noteq> Undefined \<Longrightarrow> sts \<noteq> Null \<Longrightarrow> get_member sts (Str t) = Inr (own_member sts t)"
  by (cases sts) simp_all

lemma get_member_printable:
  "sts \<noteq> Undefined \<Longrightarrow> sts \<noteq> Null \<Longrightarrow> printable t \<Longrightarrow> \<exists>found. get_member sts t = Inr found"
  by (cases sts) (auto simp: printable_def split: sum.splits)


lemma generateVideoUrl_succeeds:
  "sts \<noteq> Undefined \<Longrightarrow> sts \<noteq> Null \<Longrightarrow> \<exists>u. generateVideoUrl cld publicId ch sts (Str t) = Inr u"
  by (simp add: generateVideoUrl_def get_member_Str Let_def)


section \<open>generateSources\<close>

lemma sourceMimeType_Str:
  "sourceMimeType (Str t) = Inr (''video/'' @ (if t = ''ogv'' then ''ogg'' else t))"
  by (simp add: sourceMimeType_def mimeType_def)



lemma map_result_all:
  "\<forall>x\<in>set xs. \<exists>y. f x = Inr y \<Longrightarrow>
     \<exists>ys. map_result f xs = Inr ys \<and> list_all2 (\<lambda>x y. f x = Inr y) xs ys"
proof (induction xs)
  case Nil
  then show ?case by simp
next
  case (Cons x xs)
  from Cons.prems obtain y where y: "f x = Inr y" by auto
  from Cons obtain ys where ys: "map_result f xs = Inr ys" "list_all2 (\<lambda>x y. f x = Inr y) xs ys"
    by auto
  show ?case using y ys by simp
qed


lemma generateSources_succeeds:
  assumes "sts \<noteq> Undefined" and "sts \<noteq> Null"
  shows "\<exists>ss. generateSources cld publicId ch sts (map Str ts) = Inr ss
           \<and> list_all2 (\<lambda>t s.
                 generateVideoUrl cld publicId ch sts (Str t) = Inr (source_src s)
                 \<and> source_type s = ''video/'' @ (if t = ''ogv'' then ''ogg'' else t)
                 \<and> source_key s = source_type s) ts ss"
proof -
  let ?f = "generateSource cld publicId ch sts"
  have "\<forall>x\<in>set (map Str ts). \<exists>y. ?f x = Inr y"
  proof
    fix x
    assume "x \<in> set (map Str ts)"
    then obtain t where x: "x = Str t" by auto
    from generateVideoUrl_succeeds [OF assms] obtain u
      where "generateVideoUrl cld publicId ch sts (Str t) = Inr u" by blast
    then show "\<exists>y. ?f x = Inr y" by (simp add: x generateSource_def sourceMimeType_Str)
  qed
  from map_result_all [OF this] obtain ss
    where ss: "map_result ?f (map Str ts) = Inr ss"
      and rel: "list_all2 (\<lambda>x y. ?f x = Inr y) (map Str ts) ss"
    by blast
  from rel have "list_all2 (\<lambda>t y. ?f (Str t) = Inr y) ts ss"
    by (simp add: list_all2_map1)
  then have "list_all2 (\<lambda>t s.
                 generateVideoUrl cld publicId ch sts (Str t) = Inr (source_src s)
                 \<and> source_type s = ''video/'' @ (if t = ''ogv'' then ''ogg'' else t)
                 \<and> source_key s = source_type s) ts ss"
    by (rule list_all2_mono)
       (auto simp: generateSource_def sourceMimeType_Str split: sum.splits)
  with ss show ?thesis by (auto simp: generateSources_def)
qed

lemma generateSources_Nil:
  "generateSources cld publicId ch sts [] = Inr []"
  by (simp add: generateSources_def)


lemma list_all2_map_eq:
  "list_all2 (\<lambda>x y. f y = g x) xs ys \<Longrightarrow> map f ys = map g xs"
  by (induction rule: list_all2_induct) auto

text \<open>
  C3: for every list of format tokens (strings), no token is rejected, and the media type
  of the descriptor emitted for a token is \<^verbatim>\<open>video/\<close> followed by \<^verbatim>\<open>ogg\<close> when the token is
  exactly \<^verbatim>\<open>ogv\<close>, and by the token itself otherwise.
\<close>

theorem generateSources_media_type:
  "\<exists>ss. generateSources cld publicId childTransformations (Obj sourceTransformations) (map Str ts)
            = Inr ss
        \<and> map source_type ss = map (\<lambda>t. ''video/'' @ (if t = ''ogv'' then ''ogg'' else t)) ts"
proof -
  have "Obj sourceTransformations \<noteq> Undefined" "Obj sourceTransformations \<noteq> Null" by simp_all
  from generateSources_succeeds [OF this] obtain ss where
    ss: "generateSources cld publicId childTransformations (Obj sourceTransformations) (map Str ts) = Inr ss"
    and rel: "list_all2 (\<lambda>t s.
                 generateVideoUrl cld publicId childTransformations (Obj sourceTransformations) (Str t)
                   = Inr (source_src s)
                 \<and> source_type s = ''video/'' @ (if t = ''ogv'' then ''ogg'' else t)
                 \<and> source_key s = source_type s) ts ss"
    by blast
  from rel have "list_all2 (\<lambda>t s. source_type s = ''video/'' @ (if t = ''ogv'' then ''ogg'' else t)) ts ss"
    by (rule list_all2_mono) simp
  then have "map source_type ss = map (\<lambda>t. ''video/'' @ (if t = ''ogv'' then ''ogg'' else t)) ts"
    by (rule list_all2_map_eq)
  with ss show ?thesis by simp
qed

section \<open>getVideoTagProps\<close>

lemma local_sourceTransformation_defined:
  "local_sourceTransformation merged \<noteq> Undefined"
  by (simp add: local_sourceTransformation_def)

lemma local_sourceTransformation_Null:
  "(local_sourceTransformation merged = Null) = (get merged ''sourceTransformation'' = Null)"
  by (simp add: local_sourceTransformation_def)

lemma getVideoTagProps_empty:
  assumes "get (getMergedProps ctx props) ''sourceTypes'' = Arr []"
  shows "getVideoTagProps env ctx props =
           Inr \<lparr>sources = Some [],
                tagAttributes = local_tagAttributes env (getMergedProps ctx props)\<rparr>"
  using assms by (simp add: getVideoTagProps_def Let_def generateSources_Nil)

lemma getVideoTagProps_Arr:
  assumes "get (getMergedProps ctx props) ''sourceTypes'' = Arr (map Str ts)"
      and "get (getMergedProps ctx props) ''sourceTransformation'' \<noteq> Null \<or> ts = []"
  shows "\<exists>ss. getVideoTagProps env ctx props =
               Inr \<lparr>sources = Some ss,
                    tagAttributes = local_tagAttributes env (getMergedProps ctx props)\<rparr>
           \<and> list_all2 (\<lambda>t s.
                 generateVideoUrl (local_cld env (getMergedProps ctx props))
                     (get (getMergedProps ctx props) ''publicId'')
                     (local_childTransformations env (getMergedProps ctx props))
                     (local_sourceTransformation (getMergedProps ctx props)) (Str t)
                   = Inr (source_src s)
                 \<and> source_type s = ''video/'' @ (if t = ''ogv'' then ''ogg'' else t)
                 \<and> source_key s = source_type s) ts ss"
proof (cases "ts = []")
  case True
  with assms(1) getVideoTagProps_empty [of ctx props env] show ?thesis by simp
next
  case False
  let ?m = "getMergedProps ctx props"
  from False assms(2) have "local_sourceTransformation ?m \<noteq> Null"
    by (simp add: local_sourceTransformation_Null)
  from generateSources_succeeds [OF local_sourceTransformation_defined this]
  obtain ss where ss: "generateSources (local_cld env ?m) (get ?m ''publicId'')
        (local_childTransformations env ?m) (local_sourceTransformation ?m) (map Str ts) = Inr ss"
     "list_all2 (\<lambda>t s.
                 generateVideoUrl (local_cld env ?m) (get ?m ''publicId'')
                     (local_childTransformations env ?m)
                     (local_sourceTransformation ?m) (Str t)
                   = Inr (source_src s)
                 \<and> source_type s = ''video/'' @ (if t = ''ogv'' then ''ogg'' else t)
                 \<and> source_key s = source_type s) ts ss"
    by blast
  have "getVideoTagProps env ctx props =
               Inr \<lparr>sources = Some ss, tagAttributes = local_tagAttributes env ?m\<rparr>"
    using assms(1) ss(1) by (simp add: getVideoTagProps_def Let_def)
  then show ?thesis using ss(2) by blast
qed




lemma fake_locals:
  "local_cld fake_env merged = fake_cld"
  "local_childTransformations fake_env merged = Obj Map.empty"
  by (simp_all add: local_cld_def local_childTransformations_def fake_env_def)

lemma fake_generateVideoUrl:
  "generateVideoUrl fake_cld (Str ''sample'') (Obj Map.empty) (Obj Map.empty) (Str t)
     = Inr (''sample.'' @ t @ ''?q=undefined'')"
proof -
  have q: "''quality'' \<notin> set Object_prototype_keys" and f: "''format'' \<notin> set Object_prototype_keys"
    by (simp_all add: Object_prototype_keys_def)
  show ?thesis
    apply (simp add: generateVideoUrl_Obj fake_cld_def or_empty_def get_urlOptions [OF q]
             get_urlOptions [OF f])
    apply (simp add: get_def printed_def)
    done
qed







text \<open>
  C6: for every configuration whose format input is the empty array, whatever the rest of
  the configuration, the derivation succeeds, \<^verbatim>\<open>sources\<close> is the empty array (not
  \<^verbatim>\<open>null\<close>, which the single-format branch leaves), and the tag attributes are the
  reconciled ones, with no \<^verbatim>\<open>src\<close> assigned.
\<close>

theorem getVideoTagProps_empty_list:
  assumes "get (getMergedProps ctx props) ''sourceTypes'' = Arr []"
  shows "getVideoTagProps env ctx props =
           Inr \<lparr>sources = Some [],
                tagAttributes = local_tagAttributes env (getMergedProps ctx props)\<rparr>
       \<and> isArray (get (getMergedProps ctx props) ''sourceTypes'')"
  using assms getVideoTagProps_empty [OF assms, of env] by simp

theorem getVideoTagProps_empty_list_witness:
  "get (getMergedProps Map.empty empty_props) ''sourceTypes'' = Arr []
   \<and> get (getMergedProps Map.empty empty_props) ''sourceTransformation'' = Null
   \<and> getVideoTagProps fake_env Map.empty empty_props =
           Inr \<lparr>sources = Some [],
                tagAttributes = local_tagAttributes fake_env (getMergedProps Map.empty empty_props)\<rparr>"
proof -
  have h: "get (getMergedProps Map.empty empty_props) ''sourceTypes'' = Arr []"
    by (simp add: getMergedProps_def empty_props_def get_def)
  have n: "get (getMergedProps Map.empty empty_props) ''sourceTransformation'' = Null"
    by (simp add: getMergedProps_def empty_props_def get_def)
  from getVideoTagProps_empty_list [OF h, of fake_env] h n show ?thesis by simp
qed




text \<open>
  The amended claim at a pass-through key that collides with an attribute of the library:
  \<^verbatim>\<open>poster\<close> is \<^verbatim>\<open>mine.jpg\<close> in the props and \<^verbatim>\<open>auto.jpg\<close> for the attribute service, and
  \<^verbatim>\<open>mine.jpg\<close> in the result.
\<close>

lemma pass_through_poster:
  "local_providerAttributes fake_env (getMergedProps Map.empty multi_props) ''poster''
      = Some (Str ''auto.jpg'')
   \<and> map_sum id (\<lambda>r. tagAttributes r ''poster'') (getVideoTagProps fake_env Map.empty multi_props)
      = Inr (Some (Str ''mine.jpg''))"
proof -
  let ?m = "getMergedProps Map.empty multi_props"
  have pt: "nonCloudinaryProps (local_extracted fake_env ?m) ''poster'' = Some (Str ''mine.jpg'')"
    by (simp add: local_extracted_def fake_env_def rest_options_def destructured_keys_def
          getMergedProps_def multi_props_def restrict_map_def)
  have pr: "local_providerAttributes fake_env ?m ''poster'' = Some (Str ''auto.jpg'')"
    by (simp add: local_providerAttributes_def local_cld_def fake_env_def fake_cld_def)
  have st: "get ?m ''sourceTypes'' = Arr (map Str [''mp4'', ''ogv'', ''mp4''])"
    by (simp add: getMergedProps_def multi_props_def get_def)
  have ok: "get ?m ''sourceTransformation'' \<noteq> Null \<or> [''mp4'', ''ogv'', ''mp4''] = []"
    by (simp add: getMergedProps_def multi_props_def get_def)
  from getVideoTagProps_Arr [OF st ok, of fake_env] obtain ss where
    "getVideoTagProps fake_env Map.empty multi_props =
       Inr \<lparr>sources = Some ss, tagAttributes = local_tagAttributes fake_env ?m\<rparr>"
    by blast
  then have "map_sum id (\<lambda>r. tagAttributes r ''poster'')
               (getVideoTagProps fake_env Map.empty multi_props)
             = Inr (Some (Str ''mine.jpg''))"
    by (simp add: local_tagAttributes_def pt)
  with pr show ?thesis by simp
qed

section \<open>getMergedProps\<close>

text \<open>
  C7: for every ambient context and every props mapping, the keys of the merged
  configuration are the keys of the context and the keys of the props, and the value of a
  key is the prop's when the props have the key, the context's otherwise.
\<close>

theorem getMergedProps_props_win:
  "dom (getMergedProps ctx props) = dom ctx \<union> dom props
   \<and> getMergedProps ctx props k = (case props k of Some v \<Rightarrow> Some v | None \<Rightarrow> ctx k)"
proof
  show "dom (getMergedProps ctx props) = dom ctx \<union> dom props"
    by (auto simp: getMergedProps_def)
  show "getMergedProps ctx props k = (case props k of Some v \<Rightarrow> Some v | None \<Rightarrow> ctx k)"
    by (simp add: getMergedProps_def map_add_def split: option.splits)
qed

section \<open>Default props\<close>





section \<open>generateVideoUrl over the store\<close>

lemma take_defaults_into_s:
  "n \<le> dest \<Longrightarrow> take n (defaults_into_s dest h source) = take n h"
  by (simp add: defaults_into_s_def)

lemma length_defaults_into_s:
  "length (defaults_into_s dest h source) = length h"
  by (simp add: defaults_into_s_def)

lemma take_Util_defaults_s:
  "n \<le> dest \<Longrightarrow> take n (Util_defaults_s h dest srcs) = take n h"
  unfolding Util_defaults_s_def
  by (induction srcs arbitrary: h) (simp_all add: take_defaults_into_s)

lemma length_Util_defaults_s:
  "length (Util_defaults_s h dest srcs) = length h"
  unfolding Util_defaults_s_def
  by (induction srcs arbitrary: h) (simp_all add: length_defaults_into_s)

lemma sget_defaults_into_s:
  "dest < length h \<Longrightarrow> k \<notin> set Object_prototype_keys \<Longrightarrow>
     sget (deref (defaults_into_s dest h source) dest) k =
       (if sget (deref h dest) k = SUndefined then sget (senum_props h source) k
        else sget (deref h dest) k)"
  by (simp add: defaults_into_s_def deref_def sget_def sreads_undefined_def split: option.splits)

lemma defaults_into_s_inherited:
  "dest < length h \<Longrightarrow> k \<in> set Object_prototype_keys \<Longrightarrow> deref h dest k = None \<Longrightarrow>
     deref (defaults_into_s dest h source) dest k = None"
  by (simp add: defaults_into_s_def deref_def sreads_undefined_def split: option.splits)

lemma senum_props_defaults_into_s:
  "source' \<noteq> SRef dest \<Longrightarrow>
     senum_props (defaults_into_s dest h source) source' = senum_props h source'"
  by (cases source') (auto simp: defaults_into_s_def deref_def)

text \<open>
  The options object of the store model has the contents \<open>get_urlOptions\<close> gives for the
  value model: the first source that defines a key wins, and a key of \<^verbatim>\<open>Object.prototype\<close>
  is never copied. (The references among the arguments point into the store.)
\<close>

lemma generateVideoUrl_s_options:
  assumes v: "sget_member h sourceTransformations sourceType = Inr v"
      and wv: "\<forall>a. v = SRef a \<longrightarrow> a < length h"
      and wc: "\<forall>a. childTransformations = SRef a \<longrightarrow> a < length h"
  shows "\<exists>d h'. generateVideoUrl_s cld_url h publicId childTransformations sourceTransformations
                  sourceType = (Inr (cld_url h' publicId (SRef d)), h')
           \<and> (\<forall>k. sget (deref h' d) k =
               (if k \<in> set Object_prototype_keys then SUndefined
                else if struthy v \<and> sget (senum_props h v) k \<noteq> SUndefined
                  then sget (senum_props h v) k
                else if sget (senum_props h childTransformations) k \<noteq> SUndefined
                  then sget (senum_props h childTransformations) k
                else sget [''resource_type'' \<mapsto> SStr ''video'', ''format'' \<mapsto> SStr sourceType] k))"
proof -
  define ov where "ov = (if struthy v then v else SRef (length h))"
  define h1 where "h1 = (if struthy v then h else h @ [Map.empty])"
  define d where "d = length h1"
  define forced :: sobj
    where "forced = [''resource_type'' \<mapsto> SStr ''video'', ''format'' \<mapsto> SStr sourceType]"
  define h3 where "h3 = h1 @ [Map.empty, forced]"
  define h4 where "h4 = Util_defaults_s h3 d [ov, childTransformations, SRef (Suc d)]"
  have run: "generateVideoUrl_s cld_url h publicId childTransformations sourceTransformations
                  sourceType = (Inr (cld_url h4 publicId (SRef d)), h4)"
    using v
    by (simp add: generateVideoUrl_s_def alloc_def Let_def h4_def h3_def d_def h1_def ov_def
          forced_def)
  have dlt: "d < length h3" by (simp add: h3_def d_def)
  have ch_ne: "childTransformations \<noteq> SRef d" using wc by (auto simp: d_def h1_def)
  have f_ne: "SRef (Suc d) \<noteq> SRef d" by simp
  have e_dest: "deref h3 d = Map.empty"
    by (simp add: deref_def h3_def d_def nth_append)
  have e_ov: "senum_props h3 ov = (if struthy v then senum_props h v else Map.empty)"
    using wv by (cases v) (auto simp: ov_def h3_def h1_def deref_def nth_append)
  have e_ch: "senum_props h3 childTransformations = senum_props h childTransformations"
    using wc by (cases childTransformations) (auto simp: h3_def h1_def deref_def nth_append)
  have e_f: "senum_props h3 (SRef (Suc d)) = forced"
    by (simp add: deref_def h3_def d_def nth_append)
  let ?s1 = "defaults_into_s d h3 ov"
  let ?s2 = "defaults_into_s d ?s1 childTransformations"
  have l1: "d < length ?s1" and l2: "d < length ?s2"
    using dlt by (simp_all add: length_defaults_into_s)
  have p1: "senum_props ?s1 childTransformations = senum_props h3 childTransformations"
    by (rule senum_props_defaults_into_s [OF ch_ne])
  have p2: "senum_props ?s2 (SRef (Suc d)) = senum_props h3 (SRef (Suc d))"
    by (simp only: senum_props_defaults_into_s [OF f_ne])
  have h4: "h4 = defaults_into_s d ?s2 (SRef (Suc d))"
    by (simp add: h4_def Util_defaults_s_def)
  have inherited: "sget (deref h4 d) k = SUndefined" if k: "k \<in> set Object_prototype_keys" for k
  proof -
    have "deref h3 d k = None" by (simp add: e_dest)
    then have "deref ?s1 d k = None" by (rule defaults_into_s_inherited [OF dlt k])
    then have "deref ?s2 d k = None" by (rule defaults_into_s_inherited [OF l1 k])
    then have "deref h4 d k = None" unfolding h4 by (rule defaults_into_s_inherited [OF l2 k])
    then show ?thesis by (simp add: sget_def)
  qed
  have own: "sget (deref h4 d) k =
               (if struthy v \<and> sget (senum_props h v) k \<noteq> SUndefined
                  then sget (senum_props h v) k
                else if sget (senum_props h childTransformations) k \<noteq> SUndefined
                  then sget (senum_props h childTransformations) k
                else sget forced k)" if k: "k \<notin> set Object_prototype_keys" for k
  proof -
    have g1: "sget (deref ?s1 d) k = sget (senum_props h3 ov) k"
      by (simp only: sget_defaults_into_s [OF dlt k] e_dest) (simp add: sget_def)
    have g2: "sget (deref ?s2 d) k =
                (if sget (senum_props h3 ov) k = SUndefined
                   then sget (senum_props h3 childTransformations) k
                 else sget (senum_props h3 ov) k)"
      by (simp only: sget_defaults_into_s [OF l1 k] g1 p1)
    have "sget (deref h4 d) k =
            (if sget (deref ?s2 d) k = SUndefined then sget (senum_props h3 (SRef (Suc d))) k
             else sget (deref ?s2 d) k)"
      by (simp only: h4 sget_defaults_into_s [OF l2 k] p2)
    then have "sget (deref h4 d) k =
          (if sget (senum_props h3 ov) k \<noteq> SUndefined then sget (senum_props h3 ov) k
           else if sget (senum_props h3 childTransformations) k \<noteq> SUndefined
             then sget (senum_props h3 childTransformations) k
           else sget (senum_props h3 (SRef (Suc d))) k)"
      by (simp only: g2) simp
    then have "sget (deref h4 d) k =
          (if sget (if struthy v then senum_props h v else Map.empty) k \<noteq> SUndefined
             then sget (if struthy v then senum_props h v else Map.empty) k
           else if sget (senum_props h childTransformations) k \<noteq> SUndefined
             then sget (senum_props h childTransformations) k
           else sget forced k)"
      by (simp only: e_ov e_ch e_f)
    then show ?thesis
      by (cases "struthy v") (simp_all add: sget_def)
  qed
  have "\<forall>k. sget (deref h4 d) k =
               (if k \<in> set Object_prototype_keys then SUndefined
                else if struthy v \<and> sget (senum_props h v) k \<noteq> SUndefined
                  then sget (senum_props h v) k
                else if sget (senum_props h childTransformations) k \<noteq> SUndefined
                  then sget (senum_props h childTransformations) k
                else sget forced k)"
    using inherited own by simp
  with run show ?thesis unfolding forced_def by blast
qed

text \<open>
  C9: for every store and every call of the URL resolver, each object the store held
  before the call, so each mapping the caller supplied (the mapping of overrides, the
  override of the format, the element-level transformation), holds the same entries
  after it: the store only grows. When the call fails nothing is allocated; when it
  returns, the options given to the service are an object allocated by the call.
\<close>

theorem generateVideoUrl_s_frame:
  "take (length h)
     (snd (generateVideoUrl_s cld_url h publicId childTransformations sourceTransformations sourceType))
     = h
   \<and> (case fst (generateVideoUrl_s cld_url h publicId childTransformations sourceTransformations
                  sourceType) of
        Inl e \<Rightarrow>
          snd (generateVideoUrl_s cld_url h publicId childTransformations sourceTransformations
                 sourceType) = h
      | Inr u \<Rightarrow>
          \<exists>d. length h \<le> d
            \<and> d < length (snd (generateVideoUrl_s cld_url h publicId childTransformations
                                 sourceTransformations sourceType))
            \<and> u = cld_url (snd (generateVideoUrl_s cld_url h publicId childTransformations
                                   sourceTransformations sourceType)) publicId (SRef d))"
proof (cases "sget_member h sourceTransformations sourceType")
  case (Inl e)
  then show ?thesis by (simp add: generateVideoUrl_s_def)
next
  case (Inr v)
  show ?thesis
  proof (cases "struthy v")
    case True
    with Inr show ?thesis
      by (auto simp: generateVideoUrl_s_def alloc_def Let_def take_Util_defaults_s
               length_Util_defaults_s intro!: exI [of _ "length h"])
  next
    case False
    with Inr show ?thesis
      by (auto simp: generateVideoUrl_s_def alloc_def Let_def take_Util_defaults_s
               length_Util_defaults_s intro!: exI [of _ "Suc (length h)"])
  qed
qed

text \<open>
  The store model on the sample store: the override of \<^verbatim>\<open>mp4\<close> gives the quality, before
  the element-level transformation.
\<close>

lemma generateVideoUrl_s_sample:
  "fst (generateVideoUrl_s fake_cld_url_s sample_store (SStr ''sample'') (SRef 2) (SRef 0) ''mp4'')
     = Inr ''mp4?50''"
  by (simp add: generateVideoUrl_s_def sample_store_def alloc_def Let_def Util_defaults_s_def
        defaults_into_s_def deref_def sget_def fake_cld_url_s_def sreads_undefined_def
        Object_prototype_keys_def nth_append)

section \<open>getVideoTagProps over the heap\<close>

lemma heap_frame_length:
  assumes "take (length h) h' = h"
  shows "length h \<le> length h'"
proof -
  have "length (take (length h) h') = length h" using assms by simp
  then show ?thesis by simp
qed

lemma heap_frame_trans:
  assumes "take (length h) h1 = h" and "take (length h1) h2 = h1"
  shows "take (length h) h2 = h"
proof -
  have "length h \<le> length h1" using assms(1) by (rule heap_frame_length)
  then have "take (length h) h2 = take (length h) (take (length h1) h2)"
    by (simp add: min_def)
  then show ?thesis using assms by simp
qed

lemma object_at_frame:
  assumes "take (length h) h' = h" and "a < length h"
  shows "object_at h' a = object_at h a"
proof -
  have le: "length h \<le> length h'" using assms(1) by (rule heap_frame_length)
  have "h' ! a = take (length h) h' ! a" using assms(2) by simp
  then have "h' ! a = h ! a" using assms(1) by simp
  with le assms(2) show ?thesis by (simp add: object_at_def)
qed

text \<open>
  \<^verbatim>\<open>Util.defaults\<close> over the heap changes the destination, and leaves in it what the
  value-level \<open>Util_defaults\<close> returns.
\<close>

lemma Util_defaults_h_eq:
  "d < length h \<Longrightarrow> Util_defaults_h h d srcs = h[d := Util_defaults (object_at h d) srcs]"
  unfolding Util_defaults_h_def Util_defaults_def
  by (induction srcs arbitrary: h) (simp_all add: object_at_def)

lemma generateVideoUrl_h_eq:
  "generateVideoUrl_h cld h publicId ch sts t =
     (case get_member sts t of
        Inl e \<Rightarrow> (Inl e, h)
      | Inr found \<Rightarrow>
          (Inr (url cld publicId (urlOptions (or_empty found) ch t)),
           h @ [urlOptions (or_empty found) ch t]))"
  by (simp add: generateVideoUrl_h_def new_object_def Let_def Util_defaults_h_eq urlOptions_def
        object_at_def split: sum.splits)

lemma generateVideoUrl_h_fst:
  "fst (generateVideoUrl_h cld h publicId ch sts t) = generateVideoUrl cld publicId ch sts t"
  by (simp add: generateVideoUrl_h_eq generateVideoUrl_def Let_def split: sum.splits)

lemma generateVideoUrl_h_take:
  "take (length h) (snd (generateVideoUrl_h cld h publicId ch sts t)) = h"
  by (simp add: generateVideoUrl_h_eq split: sum.splits)

lemma generateSources_h_fst:
  "fst (generateSources_h cld h publicId ch sts ts) = generateSources cld publicId ch sts ts"
proof (induction ts arbitrary: h)
  case Nil
  show ?case by (simp add: generateSources_def)
next
  case (Cons t ts)
  obtain r1 h1 where g: "generateVideoUrl_h cld h publicId ch sts t = (r1, h1)"
    by (cases "generateVideoUrl_h cld h publicId ch sts t")
  then have r1: "generateVideoUrl cld publicId ch sts t = r1"
    using generateVideoUrl_h_fst [of cld h publicId ch sts t] by simp
  obtain r2 h2 where s: "generateSources_h cld h1 publicId ch sts ts = (r2, h2)"
    by (cases "generateSources_h cld h1 publicId ch sts ts")
  then have r2: "map_result (generateSource cld publicId ch sts) ts = r2"
    using Cons.IH [of h1] by (simp add: generateSources_def)
  show ?case
    by (simp add: generateSources_def generateSource_def g r1 s r2 split: sum.splits)
qed

lemma generateSources_h_take:
  "take (length h) (snd (generateSources_h cld h publicId ch sts ts)) = h"
proof (induction ts arbitrary: h)
  case Nil
  show ?case by simp
next
  case (Cons t ts)
  obtain r1 h1 where g: "generateVideoUrl_h cld h publicId ch sts t = (r1, h1)"
    by (cases "generateVideoUrl_h cld h publicId ch sts t")
  then have f1: "take (length h) h1 = h"
    using generateVideoUrl_h_take [of h cld publicId ch sts t] by simp
  obtain r2 h2 where s: "generateSources_h cld h1 publicId ch sts ts = (r2, h2)"
    by (cases "generateSources_h cld h1 publicId ch sts ts")
  then have "take (length h1) h2 = h1"
    using Cons.IH [of h1] by simp
  with f1 have f2: "take (length h) h2 = h" by (rule heap_frame_trans)
  show ?case
    by (simp add: g s f1 f2 split: sum.splits)
qed

lemma getVideoTagProps_h_eq:
  "getVideoTagProps_h env h c p =
     (let merged = getMergedProps (object_at h c) (object_at h p);
          h5 = h @ allocated env merged;
          tagAttributes = Suc (Suc (Suc (length h)))
      in if isArray (get merged ''sourceTypes'') then
           (case generateSources_h (local_cld env merged) h5 (get merged ''publicId'')
                   (local_childTransformations env merged) (local_sourceTransformation merged)
                   (elements (get merged ''sourceTypes'')) of
              (Inl e, h6) \<Rightarrow> (Inl e, h6)
            | (Inr ss, h6) \<Rightarrow> (Inr (Some ss, tagAttributes), h6))
         else
           (case generateVideoUrl_h (local_cld env merged) h5 (get merged ''publicId'')
                   (local_childTransformations env merged) (local_sourceTransformation merged)
                   (get merged ''sourceTypes'') of
              (Inl e, h6) \<Rightarrow> (Inl e, h6)
            | (Inr u, h6) \<Rightarrow>
                (Inr (None, tagAttributes), write_property h6 tagAttributes ''src'' (Str u))))"
  by (simp add: getVideoTagProps_h_def new_object_def Let_def allocated_def object_at_def
        nth_append getMergedProps_def rest_options_def local_options_def local_extracted_def
        local_cld_def local_tagAttributes_def local_providerAttributes_def
        local_childTransformations_def local_sourceTransformation_def
      cong: prod.case_cong sum.case_cong)

lemma object_at_allocated:
  "object_at (h @ allocated env merged) (Suc (Suc (Suc (length h)))) = local_tagAttributes env merged"
  by (simp add: object_at_def allocated_def nth_append)

lemma length_allocated:
  "length (allocated env merged) = 5"
  by (simp add: allocated_def)

lemma object_at_write_property:
  "a < length h \<Longrightarrow> object_at (write_property h a k v) a = (object_at h a)(k \<mapsto> v)"
  by (simp add: write_property_def object_at_def)

lemma length_write_property:
  "length (write_property h a k v) = length h"
  by (simp add: write_property_def)

lemma take_write_property:
  "n \<le> a \<Longrightarrow> take n (write_property h a k v) = take n h"
  by (simp add: write_property_def)

text \<open>
  What a call returns, and the heap it leaves, in the two branches.
\<close>

lemma getVideoTagProps_h_cases:
  assumes run: "getVideoTagProps_h env h c p = (r1, h1)"
  shows "take (length h) h1 = h
       \<and> map_sum id (result_in h1) r1 = getVideoTagProps env (object_at h c) (object_at h p)
       \<and> (case r1 of Inl e \<Rightarrow> True | Inr r \<Rightarrow> length h \<le> snd r \<and> snd r < length h1)"
proof -
  let ?m = "getMergedProps (object_at h c) (object_at h p)"
  let ?h5 = "h @ allocated env ?m"
  let ?ta = "Suc (Suc (Suc (length h)))"
  have ta5: "?ta < length ?h5" by (simp add: length_allocated)
  have le5: "length h \<le> ?ta" by simp
  have f5: "take (length h) ?h5 = h" by simp
  show ?thesis
  proof (cases "isArray (get ?m ''sourceTypes'')")
    case True
    let ?g = "generateSources_h (local_cld env ?m) ?h5 (get ?m ''publicId'')
                (local_childTransformations env ?m) (local_sourceTransformation ?m)
                (elements (get ?m ''sourceTypes''))"
    obtain r h6 where g: "?g = (r, h6)" by (cases ?g)
    have r: "generateSources (local_cld env ?m) (get ?m ''publicId'')
                (local_childTransformations env ?m) (local_sourceTransformation ?m)
                (elements (get ?m ''sourceTypes'')) = r"
      using generateSources_h_fst [of "local_cld env ?m" ?h5 "get ?m ''publicId''"
              "local_childTransformations env ?m" "local_sourceTransformation ?m"
              "elements (get ?m ''sourceTypes'')"] g
      by simp
    have f6: "take (length ?h5) h6 = ?h5"
      using generateSources_h_take [of ?h5 "local_cld env ?m" "get ?m ''publicId''"
              "local_childTransformations env ?m" "local_sourceTransformation ?m"
              "elements (get ?m ''sourceTypes'')"] g
      by simp
    have f: "take (length h) h6 = h" using f5 f6 by (rule heap_frame_trans)
    have ta6: "?ta < length h6" using heap_frame_length [OF f6] ta5 by simp
    have o6: "object_at h6 ?ta = local_tagAttributes env ?m"
      using object_at_frame [OF f6 ta5] by (simp only: object_at_allocated)
    have res: "(r1, h1) = (case r of Inl e \<Rightarrow> (Inl e, h6) | Inr ss \<Rightarrow> (Inr (Some ss, ?ta), h6))"
      using run True g by (simp add: getVideoTagProps_h_eq Let_def split: sum.splits)
    show ?thesis
    proof (cases r)
      case (Inl e)
      with res r True f show ?thesis
        by (simp add: getVideoTagProps_def Let_def)
    next
      case (Inr ss)
      with res r True f ta6 o6 show ?thesis
        by (simp add: getVideoTagProps_def Let_def result_in_def)
    qed
  next
    case False
    let ?g = "generateVideoUrl_h (local_cld env ?m) ?h5 (get ?m ''publicId'')
                (local_childTransformations env ?m) (local_sourceTransformation ?m)
                (get ?m ''sourceTypes'')"
    obtain r h6 where g: "?g = (r, h6)" by (cases ?g)
    have r: "generateVideoUrl (local_cld env ?m) (get ?m ''publicId'')
                (local_childTransformations env ?m) (local_sourceTransformation ?m)
                (get ?m ''sourceTypes'') = r"
      using generateVideoUrl_h_fst [of "local_cld env ?m" ?h5 "get ?m ''publicId''"
              "local_childTransformations env ?m" "local_sourceTransformation ?m"
              "get ?m ''sourceTypes''"] g
      by simp
    have f6: "take (length ?h5) h6 = ?h5"
      using generateVideoUrl_h_take [of ?h5 "local_cld env ?m" "get ?m ''publicId''"
              "local_childTransformations env ?m" "local_sourceTransformation ?m"
              "get ?m ''sourceTypes''"] g
      by simp
    have f: "take (length h) h6 = h" using f5 f6 by (rule heap_frame_trans)
    have ta6: "?ta < length h6" using heap_frame_length [OF f6] ta5 by simp
    have o6: "object_at h6 ?ta = local_tagAttributes env ?m"
      using object_at_frame [OF f6 ta5] by (simp only: object_at_allocated)
    have res: "(r1, h1) =
                 (case r of
                    Inl e \<Rightarrow> (Inl e, h6)
                  | Inr u \<Rightarrow> (Inr (None, ?ta), write_property h6 ?ta ''src'' (Str u)))"
      using run False g by (simp add: getVideoTagProps_h_eq Let_def split: sum.splits)
    show ?thesis
    proof (cases r)
      case (Inl e)
      with res r False f show ?thesis
        by (simp add: getVideoTagProps_def Let_def)
    next
      case (Inr u)
      have w: "object_at (write_property h6 ?ta ''src'' (Str u)) ?ta
                 = (local_tagAttributes env ?m)(''src'' \<mapsto> Str u)"
        by (simp only: object_at_write_property [OF ta6] o6)
      have t: "take (length h) (write_property h6 ?ta ''src'' (Str u)) = h"
        by (simp only: take_write_property [OF le5] f)
      from Inr res r False t w ta6 show ?thesis
        by (simp add: getVideoTagProps_def Let_def result_in_def length_write_property)
    qed
  qed
qed

text \<open>
  A second call, in the heap the first one leaves, for an instance whose context and
  props are objects of the heap.
\<close>

lemma getVideoTagProps_h_again:
  assumes c: "c < length h" and p: "p < length h"
      and run1: "getVideoTagProps_h env h c p = (r1, h1)"
      and run2: "getVideoTagProps_h env h1 c p = (r2, h2)"
  shows "take (length h) h1 = h"
    and "map_sum id (result_in h1) r1 = getVideoTagProps env (object_at h c) (object_at h p)"
    and "take (length h1) h2 = h1"
    and "map_sum id (result_in h2) r2 = map_sum id (result_in h1) r1"
    and "map_sum id (result_in h2) r1 = map_sum id (result_in h1) r1"
proof -
  from getVideoTagProps_h_cases [OF run1]
  have f1: "take (length h) h1 = h"
    and e1: "map_sum id (result_in h1) r1 = getVideoTagProps env (object_at h c) (object_at h p)"
    and v1: "case r1 of Inl e \<Rightarrow> True | Inr r \<Rightarrow> length h \<le> snd r \<and> snd r < length h1"
    by simp_all
  from getVideoTagProps_h_cases [OF run2]
  have f2: "take (length h1) h2 = h1"
    and e2: "map_sum id (result_in h2) r2 = getVideoTagProps env (object_at h1 c) (object_at h1 p)"
    by simp_all
  have same: "object_at h1 c = object_at h c" "object_at h1 p = object_at h p"
    using object_at_frame [OF f1 c] object_at_frame [OF f1 p] by simp_all
  show "take (length h) h1 = h" by (rule f1)
  show "map_sum id (result_in h1) r1 = getVideoTagProps env (object_at h c) (object_at h p)"
    by (rule e1)
  show "take (length h1) h2 = h1" by (rule f2)
  show "map_sum id (result_in h2) r2 = map_sum id (result_in h1) r1"
    by (simp only: e1 e2 same)
  show "map_sum id (result_in h2) r1 = map_sum id (result_in h1) r1"
  proof (cases r1)
    case (Inl e)
    then show ?thesis by simp
  next
    case (Inr r)
    with v1 have "snd r < length h1" by simp
    from object_at_frame [OF f2 this] Inr show ?thesis by (simp add: result_in_def)
  qed
qed

text \<open>
  C8: for every heap that holds the context and the props of the instance among its
  objects, every environment of collaborators and every configuration, a call of the
  derivation leaves every object the heap held as it was (the context and the props
  among them: it writes only to objects it allocates, the destination of
  \<^verbatim>\<open>Util.defaults\<close> and the tag attributes of line 135), and returns what the derivation is
  as a function of the contents of the context and of the props; a second call, in the
  heap the first one leaves, returns a result of the same contents (the same sources, the
  same attributes, or the same error), leaves the result of the first call as it was,
  and again changes no object that existed before it.
\<close>

theorem getVideoTagProps_h_twice:
  "(let h = before @ [ctx] @ between @ [props] @ after;
        c = length before;
        p = Suc (length before + length between)
    in case getVideoTagProps_h env h c p of
         (r1, h1) \<Rightarrow>
           take (length h) h1 = h
           \<and> map_sum id (result_in h1) r1 = getVideoTagProps env ctx props
           \<and> (case getVideoTagProps_h env h1 c p of
                (r2, h2) \<Rightarrow>
                  take (length h1) h2 = h1
                  \<and> map_sum id (result_in h2) r2 = map_sum id (result_in h1) r1
                  \<and> map_sum id (result_in h2) r1 = map_sum id (result_in h1) r1))"
proof -
  define h where "h = before @ [ctx] @ between @ [props] @ after"
  define c where "c = length before"
  define p where "p = Suc (length before + length between)"
  have c: "c < length h" and p: "p < length h"
    by (simp_all add: h_def c_def p_def)
  have oc: "object_at h c = ctx"
    by (simp add: h_def c_def object_at_def)
  have op: "object_at h p = props"
    by (simp add: h_def p_def object_at_def nth_append)
  obtain r1 h1 where run1: "getVideoTagProps_h env h c p = (r1, h1)"
    by (cases "getVideoTagProps_h env h c p")
  obtain r2 h2 where run2: "getVideoTagProps_h env h1 c p = (r2, h2)"
    by (cases "getVideoTagProps_h env h1 c p")
  note facts = getVideoTagProps_h_again [OF c p run1 run2]
  have "take (length h) h1 = h
           \<and> map_sum id (result_in h1) r1 = getVideoTagProps env ctx props
           \<and> take (length h1) h2 = h1
           \<and> map_sum id (result_in h2) r2 = map_sum id (result_in h1) r1
           \<and> map_sum id (result_in h2) r1 = map_sum id (result_in h1) r1"
    using facts oc op by simp
  then have "case getVideoTagProps_h env h c p of
         (r1, h1) \<Rightarrow>
           take (length h) h1 = h
           \<and> map_sum id (result_in h1) r1 = getVideoTagProps env ctx props
           \<and> (case getVideoTagProps_h env h1 c p of
                (r2, h2) \<Rightarrow>
                  take (length h1) h2 = h1
                  \<and> map_sum id (result_in h2) r2 = map_sum id (result_in h1) r1
                  \<and> map_sum id (result_in h2) r1 = map_sum id (result_in h1) r1)"
    by (simp add: run1 run2)
  then show ?thesis
    unfolding h_def c_def p_def Let_def .
qed

text \<open>
  Two calls on the sample heap, whose props hold \<^verbatim>\<open>src: 'mine'\<close>: both return the resolved
  URL as \<^verbatim>\<open>src\<close>, and the props still hold \<^verbatim>\<open>mine\<close>.
\<close>

lemma getVideoTagProps_h_sample:
  "(case getVideoTagProps_h fake_env sample_heap 0 1 of
      (r1, h1) \<Rightarrow>
        map_sum id (\<lambda>r. get (tagAttributes (result_in h1 r)) ''src'') r1
          = Inr (Str ''sample.webm?q=undefined'')
        \<and> get (object_at h1 1) ''src'' = Str ''mine''
        \<and> (case getVideoTagProps_h fake_env h1 0 1 of
             (r2, h2) \<Rightarrow>
               map_sum id (\<lambda>r. get (tagAttributes (result_in h2 r)) ''src'') r2
                 = Inr (Str ''sample.webm?q=undefined'')
               \<and> get (object_at h2 1) ''src'' = Str ''mine''))"
proof -
  have c: "(0::nat) < length sample_heap" and p: "(1::nat) < length sample_heap"
    by (simp_all add: sample_heap_def)
  obtain r1 h1 where run1: "getVideoTagProps_h fake_env sample_heap 0 1 = (r1, h1)"
    by (cases "getVideoTagProps_h fake_env sample_heap 0 1")
  obtain r2 h2 where run2: "getVideoTagProps_h fake_env h1 0 1 = (r2, h2)"
    by (cases "getVideoTagProps_h fake_env h1 0 1")
  note facts = getVideoTagProps_h_again [OF c p run1 run2]
  let ?m = "getMergedProps Map.empty single_props"
  have oc: "object_at sample_heap 0 = Map.empty" and op: "object_at sample_heap 1 = single_props"
    by (simp_all add: sample_heap_def object_at_def)
  have st: "get ?m ''sourceTypes'' = Str ''webm''"
    and pid: "get ?m ''publicId'' = Str ''sample''"
    and ov: "local_sourceTransformation ?m = Obj Map.empty"
    by (simp_all add: local_sourceTransformation_def getMergedProps_def single_props_def get_def)
  have val: "map_sum id (\<lambda>r. get (tagAttributes r) ''src'')
               (getVideoTagProps fake_env Map.empty single_props)
             = Inr (Str ''sample.webm?q=undefined'')"
    by (simp add: getVideoTagProps_def Let_def st pid ov fake_locals fake_generateVideoUrl)
       (simp add: get_def)
  have comp: "map_sum id (\<lambda>r. get (tagAttributes (result_in h r)) ''src'') x
                = map_sum id (\<lambda>r. get (tagAttributes r) ''src'') (map_sum id (result_in h) x)"
    for h x by (cases x) simp_all
  have v1: "map_sum id (\<lambda>r. get (tagAttributes (result_in h1 r)) ''src'') r1
              = Inr (Str ''sample.webm?q=undefined'')"
    by (simp only: comp facts(2) oc op val)
  have v2: "map_sum id (\<lambda>r. get (tagAttributes (result_in h2 r)) ''src'') r2
              = Inr (Str ''sample.webm?q=undefined'')"
    by (simp only: comp facts(4) facts(2) oc op val)
  have p1: "object_at h1 1 = single_props"
    using object_at_frame [OF facts(1) p] op by simp
  have f02: "take (length sample_heap) h2 = sample_heap"
    using facts(1) facts(3) by (rule heap_frame_trans)
  have p2: "object_at h2 1 = single_props"
    using object_at_frame [OF f02 p] op by simp
  have mine: "get single_props ''src'' = Str ''mine''"
    by (simp add: single_props_def get_def)
  show ?thesis
    using run1 run2 v1 v2 p1 p2 mine by simp
qed

end
